theory Spec2Isabelle
  imports Main "HOL-Library.Word"
begin

section \<open>The contract EncryptedOracleFHE\<close>

text \<open>
  A shallow embedding of \<^verbatim>\<open>src/contracts/EncryptedOracleFHE.sol\<close>.
  Solidity's \<^verbatim>\<open>uint256\<close> and \<^verbatim>\<open>uint32\<close> are words of that width, \<^verbatim>\<open>bytes\<close> is a
  list of bytes, and \<^verbatim>\<open>euint32\<close> is the 32-byte handle of a ciphertext. A mapping is a
  total function: a key that was never written reads as the zero value of its type.
\<close>

type_synonym uint256 = "256 word"
type_synonym uint32 = "32 word"
type_synonym bytes32 = "256 word"
type_synonym euint32 = "256 word"
type_synonym bytes = "8 word list"

subsection \<open>Storage\<close>

record EncryptedDataPoint =
  id' :: uint256
  encryptedValue :: euint32
  timestamp :: uint256

record DecryptedDataPoint =
  value' :: uint32
  isRevealed :: bool

datatype event =
  DataSubmitted uint256 uint256
| DecryptionRequested uint256
| DataDecrypted uint256

text \<open>
  The storage variables of the contract, and the log of the events it has emitted
  (oldest first).
\<close>

record EncryptedOracleFHE =
  dataCount :: uint256
  encryptedData :: "uint256 \<Rightarrow> EncryptedDataPoint"
  decryptedData :: "uint256 \<Rightarrow> DecryptedDataPoint"
  requestToDataId :: "uint256 \<Rightarrow> uint256"
  events :: "event list"

text \<open>The contract right after deployment: every storage slot is zero, nothing is logged.\<close>

definition deployed :: EncryptedOracleFHE where
  "deployed =
     \<lparr>dataCount = 0,
      encryptedData = (\<lambda>_. \<lparr>id' = 0, encryptedValue = 0, timestamp = 0\<rparr>),
      decryptedData = (\<lambda>_. \<lparr>value' = 0, isRevealed = False\<rparr>),
      requestToDataId = (\<lambda>_. 0),
      events = []\<rparr>"

subsection \<open>What a call can revert with\<close>

text \<open>
  \<open>Error msg\<close> is a failed \<^verbatim>\<open>require(cond, msg)\<close>; \<open>Panic_overflow\<close> is the checked
  arithmetic of Solidity 0.8 (\<^verbatim>\<open>dataCount += 1\<close> at \<open>2^256 - 1\<close>); the three others are
  a revert inside \<^verbatim>\<open>FHE.requestDecryption\<close>, inside \<^verbatim>\<open>FHE.checkSignatures\<close> and inside
  \<^verbatim>\<open>abi.decode\<close>.
\<close>

datatype error =
  Error string
| Panic_overflow
| RequestDecryption_reverted
| CheckSignatures_reverted
| AbiDecode_reverted

subsection \<open>The imported FHE library\<close>

text \<open>
  The contract imports \<^verbatim>\<open>FHE\<close> from \<^verbatim>\<open>@fhevm/solidity\<close>; the library is not part of
  the repository, so the three functions the contract calls are parameters of the model.
  \<open>requestDecryption\<close> is given the list of ciphertexts and answers \<open>Some reqId\<close>, or
  \<open>None\<close> when the library reverts (the callback selector it is also passed is a
  compile-time constant and is left out); \<open>checkSignatures\<close> is \<open>True\<close> when the library
  returns and \<open>False\<close> when it reverts. The library keeps state of its own, so each call
  of the contract is given the library as it answers during that call.
\<close>

record FHE =
  toBytes32 :: "euint32 \<Rightarrow> bytes32"
  requestDecryption :: "bytes32 list \<Rightarrow> uint256 option"
  checkSignatures :: "uint256 \<Rightarrow> bytes \<Rightarrow> bytes \<Rightarrow> bool"

subsection \<open>\<^verbatim>\<open>abi.decode(cleartexts, (uint32))\<close>\<close>

text \<open>
  The decoder of Solidity 0.8 reads the first 32 bytes as a big-endian number; it reverts
  when fewer than 32 bytes are given and when the number does not fit \<^verbatim>\<open>uint32\<close>.
\<close>

definition be_uint256 :: "bytes \<Rightarrow> uint256" where
  "be_uint256 bs = foldl (\<lambda>acc b. acc * 256 + ucast b) 0 bs"

definition abi_decode_uint32 :: "bytes \<Rightarrow> uint32 option" where
  "abi_decode_uint32 cleartexts =
     (if length cleartexts < 32 then None
      else if 0xFFFFFFFF < be_uint256 (take 32 cleartexts) then None
      else Some (ucast (be_uint256 (take 32 cleartexts))))"

subsection \<open>The functions of the contract\<close>

text \<open>
  A call returns \<open>Inl e\<close> when it reverts with \<open>e\<close> and \<open>Inr s'\<close>, the storage after the
  call, when it returns. The modifier \<^verbatim>\<open>onlySource\<close> has the body \<^verbatim>\<open>_;\<close> alone and checks
  nothing. \<^verbatim>\<open>block.timestamp\<close> is the argument \<open>now\<close>.
\<close>

definition submitEncryptedData :: "uint256 \<Rightarrow> euint32 \<Rightarrow> EncryptedOracleFHE \<Rightarrow> error + EncryptedOracleFHE" where
  "submitEncryptedData now v s =
     (if dataCount s = - 1 then Inl Panic_overflow
      else
        let newId = dataCount s + 1 in
        Inr (s\<lparr>dataCount := newId,
               encryptedData := (encryptedData s)
                 (newId := \<lparr>id' = newId, encryptedValue = v, timestamp = now\<rparr>),
               decryptedData := (decryptedData s)
                 (newId := \<lparr>value' = 0, isRevealed = False\<rparr>),
               events := events s @ [DataSubmitted newId now]\<rparr>))"

definition requestDataDecryption :: "FHE \<Rightarrow> uint256 \<Rightarrow> EncryptedOracleFHE \<Rightarrow> error + EncryptedOracleFHE" where
  "requestDataDecryption L dataId s =
     (let dataPoint = encryptedData s dataId in
      if isRevealed (decryptedData s dataId) then Inl (Error ''Already decrypted'')
      else
        let ciphertexts = [toBytes32 L (encryptedValue dataPoint)] in
        case requestDecryption L ciphertexts of
          None \<Rightarrow> Inl RequestDecryption_reverted
        | Some reqId \<Rightarrow>
            Inr (s\<lparr>requestToDataId := (requestToDataId s)(reqId := dataId),
                   events := events s @ [DecryptionRequested dataId]\<rparr>))"

definition decryptDataPoint :: "FHE \<Rightarrow> uint256 \<Rightarrow> bytes \<Rightarrow> bytes \<Rightarrow> EncryptedOracleFHE \<Rightarrow> error + EncryptedOracleFHE" where
  "decryptDataPoint L requestId cleartexts proof s =
     (let dataId = requestToDataId s requestId in
      if dataId = 0 then Inl (Error ''Invalid request'')
      else if \<not> checkSignatures L requestId cleartexts proof then Inl CheckSignatures_reverted
      else
        case abi_decode_uint32 cleartexts of
          None \<Rightarrow> Inl AbiDecode_reverted
        | Some v \<Rightarrow>
            Inr (s\<lparr>decryptedData := (decryptedData s)
                     (dataId := (decryptedData s dataId)\<lparr>value' := v, isRevealed := True\<rparr>),
                   events := events s @ [DataDecrypted dataId]\<rparr>))"

definition getDecryptedData :: "EncryptedOracleFHE \<Rightarrow> uint256 \<Rightarrow> uint32 \<times> bool" where
  "getDecryptedData s dataId =
     (let dp = decryptedData s dataId in (value' dp, isRevealed dp))"

subsection \<open>Transactions\<close>

text \<open>
  Each call is a transaction of its own. A transaction that reverts leaves the storage
  and the log as they were before it.
\<close>

datatype tx =
  SubmitEncryptedData uint256 euint32
| RequestDataDecryption FHE uint256
| DecryptDataPoint FHE uint256 bytes bytes

fun call :: "tx \<Rightarrow> EncryptedOracleFHE \<Rightarrow> error + EncryptedOracleFHE" where
  "call (SubmitEncryptedData now v) s = submitEncryptedData now v s"
| "call (RequestDataDecryption L dataId) s = requestDataDecryption L dataId s"
| "call (DecryptDataPoint L requestId cleartexts proof) s =
     decryptDataPoint L requestId cleartexts proof s"

definition exec :: "tx \<Rightarrow> EncryptedOracleFHE \<Rightarrow> EncryptedOracleFHE" where
  "exec t s = (case call t s of Inl e \<Rightarrow> s | Inr s' \<Rightarrow> s')"

fun run :: "tx list \<Rightarrow> EncryptedOracleFHE \<Rightarrow> EncryptedOracleFHE" where
  "run [] s = s"
| "run (t # ts) s = run ts (exec t s)"

text \<open>The ids that the \<^verbatim>\<open>DataSubmitted\<close> events of a log carry, in the order of the log.\<close>

fun submitted_ids :: "event list \<Rightarrow> uint256 list" where
  "submitted_ids [] = []"
| "submitted_ids (DataSubmitted i t # es) = i # submitted_ids es"
| "submitted_ids (e # es) = submitted_ids es"

subsection \<open>Concrete libraries, payloads and storages\<close>

text \<open>
  \<open>lib r\<close> is a library whose \<^verbatim>\<open>requestDecryption\<close> answers \<open>r\<close> and whose
  \<^verbatim>\<open>checkSignatures\<close> accepts; \<open>lib_rejecting\<close> reverts in both. \<open>payload b\<close> is the
  ABI encoding of the number \<open>b\<close>: 31 zero bytes and the byte \<open>b\<close>.
\<close>

definition lib :: "uint256 \<Rightarrow> FHE" where
  "lib r =
     \<lparr>toBytes32 = (\<lambda>h. h), requestDecryption = (\<lambda>_. Some r),
      checkSignatures = (\<lambda>_ _ _. True)\<rparr>"

definition lib_rejecting :: FHE where
  "lib_rejecting =
     \<lparr>toBytes32 = (\<lambda>h. h), requestDecryption = (\<lambda>_. None),
      checkSignatures = (\<lambda>_ _ _. False)\<rparr>"

definition payload :: "8 word \<Rightarrow> bytes" where
  "payload b = replicate 31 0 @ [b]"

text \<open>
  \<open>pending_state\<close>: ciphertext 42 was submitted at time 1000 and got id 1, and its
  decryption was requested under request id 5. \<open>revealed_state\<close>: the callback for
  request 5 has then delivered the value 7.
\<close>

definition pending_state :: EncryptedOracleFHE where
  "pending_state =
     run [SubmitEncryptedData 1000 42, RequestDataDecryption (lib 5) 1] deployed"

definition revealed_state :: EncryptedOracleFHE where
  "revealed_state = exec (DecryptDataPoint (lib 0) 5 (payload 7) []) pending_state"

text \<open>
  \<open>unsubmitted_revealed_state\<close>: nothing was ever submitted; a decryption of id 1 was
  requested under request id 5 and the callback for request 5 has delivered the value 7.
\<close>

definition unsubmitted_revealed_state :: EncryptedOracleFHE where
  "unsubmitted_revealed_state =
     run [RequestDataDecryption (lib 5) 1, DecryptDataPoint (lib 0) 5 (payload 7) []] deployed"

subsection \<open>An invariant of the storage\<close>

text \<open>
  What every sequence of transactions keeps true, from deployment on: the ids logged by
  \<^verbatim>\<open>DataSubmitted\<close> are \<open>1, 2, ..., dataCount\<close> in this order; \<^verbatim>\<open>encryptedData\<close> is zero at
  every id that was not logged so; \<^verbatim>\<open>decryptedData\<close> is zero at every id for which no
  \<^verbatim>\<open>DataDecrypted\<close> was logged.
\<close>

definition storage_inv :: "EncryptedOracleFHE \<Rightarrow> bool" where
  "storage_inv s \<longleftrightarrow>
     map unat (submitted_ids (events s)) = [1..<Suc (unat (dataCount s))] \<and>
     (\<forall>i. i \<notin> set (submitted_ids (events s)) \<longrightarrow>
        encryptedData s i = \<lparr>id' = 0, encryptedValue = 0, timestamp = 0\<rparr>) \<and>
     (\<forall>i. DataDecrypted i \<notin> set (events s) \<longrightarrow>
        decryptedData s i = \<lparr>value' = 0, isRevealed = False\<rparr>)"


section \<open>Evaluating the concrete storages\<close>

lemmas call_defs = exec_def submitEncryptedData_def requestDataDecryption_def
  decryptDataPoint_def getDecryptedData_def Let_def

lemma DecryptedDataPoint_written [simp]:
  "r\<lparr>value' := v, isRevealed := b\<rparr> = \<lparr>value' = v, isRevealed = b\<rparr>"
  by (cases r) simp

lemma decode_payload_7: "abi_decode_uint32 (payload 7) = Some 7"
  by code_simp

lemma decode_payload_9: "abi_decode_uint32 (payload 9) = Some 9"
  by code_simp

lemma pending_state_eq:
  "pending_state =
     \<lparr>dataCount = 1,
      encryptedData = (\<lambda>_. \<lparr>id' = 0, encryptedValue = 0, timestamp = 0\<rparr>)
        (1 := \<lparr>id' = 1, encryptedValue = 42, timestamp = 1000\<rparr>),
      decryptedData = (\<lambda>_. \<lparr>value' = 0, isRevealed = False\<rparr>),
      requestToDataId = (\<lambda>_. 0)(5 := 1),
      events = [DataSubmitted 1 1000, DecryptionRequested 1]\<rparr>"
  by (simp add: pending_state_def call_defs deployed_def lib_def fun_eq_iff)

lemma revealed_state_eq:
  "revealed_state =
     \<lparr>dataCount = 1,
      encryptedData = (\<lambda>_. \<lparr>id' = 0, encryptedValue = 0, timestamp = 0\<rparr>)
        (1 := \<lparr>id' = 1, encryptedValue = 42, timestamp = 1000\<rparr>),
      decryptedData = (\<lambda>_. \<lparr>value' = 0, isRevealed = False\<rparr>)
        (1 := \<lparr>value' = 7, isRevealed = True\<rparr>),
      requestToDataId = (\<lambda>_. 0)(5 := 1),
      events = [DataSubmitted 1 1000, DecryptionRequested 1, DataDecrypted 1]\<rparr>"
  by (simp add: revealed_state_def pending_state_eq call_defs lib_def decode_payload_7)

lemma unsubmitted_revealed_state_eq:
  "unsubmitted_revealed_state =
     \<lparr>dataCount = 0,
      encryptedData = (\<lambda>_. \<lparr>id' = 0, encryptedValue = 0, timestamp = 0\<rparr>),
      decryptedData = (\<lambda>_. \<lparr>value' = 0, isRevealed = False\<rparr>)
        (1 := \<lparr>value' = 7, isRevealed = True\<rparr>),
      requestToDataId = (\<lambda>_. 0)(5 := 1),
      events = [DecryptionRequested 1, DataDecrypted 1]\<rparr>"
  by (simp add: unsubmitted_revealed_state_def call_defs deployed_def lib_def decode_payload_7)

section \<open>The invariant holds after every sequence of transactions\<close>

lemma submitted_ids_append:
  "submitted_ids (xs @ ys) = submitted_ids xs @ submitted_ids ys"
  by (induction xs rule: submitted_ids.induct) simp_all

lemma unat_next_id: "(x :: uint256) \<noteq> - 1 \<Longrightarrow> unat (x + 1) = Suc (unat x)"
  by (metis add.commute add_eq_0_iff2 unatSuc)

lemma next_id_fresh:
  assumes "map unat (submitted_ids (events s)) = [1..<Suc (unat (dataCount s))]"
    and "dataCount s \<noteq> - 1"
  shows "dataCount s + 1 \<notin> set (submitted_ids (events s))"
proof
  assume "dataCount s + 1 \<in> set (submitted_ids (events s))"
  then have "unat (dataCount s + 1) \<in> set (map unat (submitted_ids (events s)))"
    by simp
  with assms show False
    by (simp add: unat_next_id)
qed

lemma storage_inv_deployed: "storage_inv deployed"
  by (simp add: storage_inv_def deployed_def)

lemma storage_inv_submit:
  assumes "storage_inv s" and "submitEncryptedData now v s = Inr s'"
  shows "storage_inv s'"
proof -
  from assms(2) have ne: "dataCount s \<noteq> - 1"
    by (auto simp: submitEncryptedData_def split: if_splits)
  from assms(1) have ids: "map unat (submitted_ids (events s)) = [1..<Suc (unat (dataCount s))]"
    by (simp add: storage_inv_def)
  from assms(2) ne have s': "s' = s\<lparr>dataCount := dataCount s + 1,
               encryptedData := (encryptedData s)
                 (dataCount s + 1 := \<lparr>id' = dataCount s + 1, encryptedValue = v, timestamp = now\<rparr>),
               decryptedData := (decryptedData s)
                 (dataCount s + 1 := \<lparr>value' = 0, isRevealed = False\<rparr>),
               events := events s @ [DataSubmitted (dataCount s + 1) now]\<rparr>"
    by (simp add: submitEncryptedData_def Let_def)
  show ?thesis
    using assms(1) ids
    by (simp add: s' storage_inv_def submitted_ids_append unat_next_id [OF ne])
qed

lemma storage_inv_request:
  "storage_inv s \<Longrightarrow> requestDataDecryption L dataId s = Inr s' \<Longrightarrow> storage_inv s'"
  by (auto simp: requestDataDecryption_def Let_def storage_inv_def submitted_ids_append
           split: if_splits option.splits)

lemma storage_inv_decrypt:
  "storage_inv s \<Longrightarrow> decryptDataPoint L requestId cleartexts proof s = Inr s' \<Longrightarrow> storage_inv s'"
  by (auto simp: decryptDataPoint_def Let_def storage_inv_def submitted_ids_append
           split: if_splits option.splits)

lemma storage_inv_exec: "storage_inv s \<Longrightarrow> storage_inv (exec t s)"
  by (cases t)
     (auto simp: exec_def split: sum.splits
           intro: storage_inv_submit storage_inv_request storage_inv_decrypt)

lemma storage_inv_run: "storage_inv s \<Longrightarrow> storage_inv (run ts s)"
  by (induction ts arbitrary: s) (simp_all add: storage_inv_exec)

lemma run_append: "run (ts @ ts') s = run ts' (run ts s)"
  by (induction ts arbitrary: s) simp_all

text \<open>A transaction leaves the data point of an id that was assigned where it is.\<close>

lemma assigned_kept_exec:
  assumes "storage_inv s" and "i \<in> set (submitted_ids (events s))"
  shows "encryptedData (exec t s) i = encryptedData s i \<and>
         i \<in> set (submitted_ids (events (exec t s)))"
proof (cases t)
  case (SubmitEncryptedData now v)
  show ?thesis
  proof (cases "dataCount s = - 1")
    case True
    with assms SubmitEncryptedData show ?thesis
      by (simp add: exec_def submitEncryptedData_def)
  next
    case False
    from assms(1) have "map unat (submitted_ids (events s)) = [1..<Suc (unat (dataCount s))]"
      by (simp add: storage_inv_def)
    from next_id_fresh [OF this False] assms(2) have "i \<noteq> dataCount s + 1"
      by auto
    with assms(2) False SubmitEncryptedData show ?thesis
      by (simp add: exec_def submitEncryptedData_def Let_def submitted_ids_append)
  qed
next
  case (RequestDataDecryption L dataId)
  with assms(2) show ?thesis
    by (auto simp: exec_def requestDataDecryption_def Let_def submitted_ids_append
             split: option.splits)
next
  case (DecryptDataPoint L requestId cleartexts sig)
  with assms(2) show ?thesis
    by (auto simp: exec_def decryptDataPoint_def Let_def submitted_ids_append
             split: option.splits)
qed

lemma assigned_kept_run:
  "storage_inv s \<Longrightarrow> i \<in> set (submitted_ids (events s)) \<Longrightarrow>
     encryptedData (run ts s) i = encryptedData s i"
proof (induction ts arbitrary: s)
  case Nil
  then show ?case by simp
next
  case (Cons t ts)
  from assigned_kept_exec [OF Cons.prems]
  have "encryptedData (exec t s) i = encryptedData s i"
    and "i \<in> set (submitted_ids (events (exec t s)))"
    by simp_all
  with Cons.IH [OF storage_inv_exec [OF Cons.prems(1)]] show ?case
    by simp
qed

lemma ids_strictly_increasing:
  assumes "map unat (ids :: uint256 list) = [1..<Suc n]"
  shows "sorted_wrt (<) ids \<and> distinct ids"
proof -
  have "sorted_wrt (<) (map unat ids)"
    unfolding assms by (rule sorted_wrt_upt)
  moreover have "distinct (map unat ids)"
    unfolding assms by (rule distinct_upt)
  ultimately show ?thesis
    by (simp add: sorted_wrt_map word_less_nat_alt [symmetric] distinct_map)
qed

section \<open>Submitting\<close>

text \<open>
  C6. After every sequence of transactions from deployment, the ids that
  \<^verbatim>\<open>submitEncryptedData\<close> has assigned (those of the \<^verbatim>\<open>DataSubmitted\<close> events, in the order
  of the calls) are strictly increasing and pairwise different, and whatever
  transactions follow, the data point stored under an assigned id stays the one that was
  stored: the id is not given to another data point.
\<close>

theorem submitted_ids_increasing_never_reassigned:
  "sorted_wrt (<) (submitted_ids (events (run ts deployed))) \<and>
   distinct (submitted_ids (events (run ts deployed))) \<and>
   (\<forall>i \<in> set (submitted_ids (events (run ts deployed))).
      encryptedData (run (ts @ ts') deployed) i = encryptedData (run ts deployed) i)"
proof -
  have inv: "storage_inv (run ts deployed)"
    by (rule storage_inv_run [OF storage_inv_deployed])
  then have "map unat (submitted_ids (events (run ts deployed))) =
      [1..<Suc (unat (dataCount (run ts deployed)))]"
    by (simp add: storage_inv_def)
  from ids_strictly_increasing [OF this] assigned_kept_run [OF inv] show ?thesis
    by (simp add: run_append)
qed

theorem submitted_ids_increasing_never_reassigned_witness:
  "submitted_ids (events (run [SubmitEncryptedData 1000 42, SubmitEncryptedData 1001 43] deployed))
     = [1, 2] \<and>
   sorted_wrt (<)
     (submitted_ids (events (run [SubmitEncryptedData 1000 42, SubmitEncryptedData 1001 43] deployed))) \<and>
   distinct
     (submitted_ids (events (run [SubmitEncryptedData 1000 42, SubmitEncryptedData 1001 43] deployed))) \<and>
   encryptedData
     (run ([SubmitEncryptedData 1000 42, SubmitEncryptedData 1001 43] @
           [RequestDataDecryption (lib 5) 2, SubmitEncryptedData 1002 44]) deployed) 2 =
   encryptedData (run [SubmitEncryptedData 1000 42, SubmitEncryptedData 1001 43] deployed) 2"
proof -
  have ids: "submitted_ids
      (events (run [SubmitEncryptedData 1000 42, SubmitEncryptedData 1001 43] deployed)) = [1, 2]"
    by (simp add: call_defs deployed_def)
  show ?thesis
    using submitted_ids_increasing_never_reassigned
      [of "[SubmitEncryptedData 1000 42, SubmitEncryptedData 1001 43]"
          "[RequestDataDecryption (lib 5) 2, SubmitEncryptedData 1002 44]"]
    by (simp only: ids) simp
qed

section \<open>Requesting a decryption\<close>

text \<open>
  C5. When the target is revealed (\<^verbatim>\<open>decryptedData[dataId].isRevealed\<close> is set),
  \<^verbatim>\<open>requestDataDecryption\<close> reverts with "Already decrypted", the contract's
  AlreadyRevealed, whatever the library would answer, and the storage and the log after
  the transaction are those before it.
\<close>

theorem request_revealed_fails:
  "isRevealed (decryptedData s dataId) \<Longrightarrow>
     requestDataDecryption L dataId s = Inl (Error ''Already decrypted'') \<and>
     exec (RequestDataDecryption L dataId) s = s"
  by (simp add: exec_def requestDataDecryption_def)

theorem request_revealed_fails_witness:
  "isRevealed (decryptedData revealed_state 1) \<and>
   requestDataDecryption (lib 6) 1 revealed_state = Inl (Error ''Already decrypted'') \<and>
   exec (RequestDataDecryption (lib 6) 1) revealed_state = revealed_state"
  using request_revealed_fails [of revealed_state 1 "lib 6"]
  by (simp add: revealed_state_eq)

text \<open>
  C2, as the contract has it. The contract keeps no pending state and has no error for
  it. When a request id \<open>r0\<close> is already recorded for the target, the target is not
  revealed and the library answers the new request with \<open>r\<close>, \<^verbatim>\<open>requestDataDecryption\<close>
  returns: it records \<open>r\<close> for the target too and logs \<^verbatim>\<open>DecryptionRequested\<close>, and
  afterwards both \<open>r0\<close> and \<open>r\<close> are outstanding for the one target.
\<close>

theorem request_pending_accepted:
  "requestToDataId s r0 = dataId \<Longrightarrow>
   \<not> isRevealed (decryptedData s dataId) \<Longrightarrow>
   requestDecryption L [toBytes32 L (encryptedValue (encryptedData s dataId))] = Some r \<Longrightarrow>
     requestDataDecryption L dataId s =
       Inr (s\<lparr>requestToDataId := (requestToDataId s)(r := dataId),
              events := events s @ [DecryptionRequested dataId]\<rparr>) \<and>
     requestToDataId (exec (RequestDataDecryption L dataId) s) r0 = dataId \<and>
     requestToDataId (exec (RequestDataDecryption L dataId) s) r = dataId"
  by (simp add: exec_def requestDataDecryption_def)

theorem request_pending_accepted_witness:
  "requestToDataId pending_state 5 = 1 \<and>
   \<not> isRevealed (decryptedData pending_state 1) \<and>
   requestDecryption (lib 6)
     [toBytes32 (lib 6) (encryptedValue (encryptedData pending_state 1))] = Some 6 \<and>
   requestDataDecryption (lib 6) 1 pending_state =
     Inr (pending_state\<lparr>requestToDataId := (requestToDataId pending_state)(6 := 1),
                        events := events pending_state @ [DecryptionRequested 1]\<rparr>) \<and>
   requestToDataId (exec (RequestDataDecryption (lib 6) 1) pending_state) 5 = 1 \<and>
   requestToDataId (exec (RequestDataDecryption (lib 6) 1) pending_state) 6 = 1"
proof -
  have a: "requestToDataId pending_state 5 = 1"
    by (simp add: pending_state_eq)
  have b: "\<not> isRevealed (decryptedData pending_state 1)"
    by (simp add: pending_state_eq)
  have c: "requestDecryption (lib 6)
      [toBytes32 (lib 6) (encryptedValue (encryptedData pending_state 1))] = Some 6"
    by (simp add: lib_def)
  show ?thesis
    using request_pending_accepted [OF a b c] a b c by simp
qed

text \<open>
  C2 as stated fails: in \<open>pending_state\<close> request 5 is outstanding for target 1, and a
  second \<^verbatim>\<open>requestDataDecryption(1)\<close> returns and leaves requests 5 and 6 both recorded
  for target 1.
\<close>

theorem request_pending_counterexample:
  "requestToDataId pending_state 5 = 1 \<and>
   \<not> isRevealed (decryptedData pending_state 1) \<and>
   requestDataDecryption (lib 6) 1 pending_state =
     Inr (pending_state\<lparr>requestToDataId := (requestToDataId pending_state)(6 := 1),
                        events := events pending_state @ [DecryptionRequested 1]\<rparr>) \<and>
   requestToDataId (exec (RequestDataDecryption (lib 6) 1) pending_state) 5 = 1 \<and>
   requestToDataId (exec (RequestDataDecryption (lib 6) 1) pending_state) 6 = 1"
  by (simp add: pending_state_eq exec_def requestDataDecryption_def lib_def)

text \<open>
  C9, as the contract has it. After every sequence of transactions from deployment, for
  an id that no \<^verbatim>\<open>submitEncryptedData\<close> has assigned and for which no callback has been
  accepted (no \<^verbatim>\<open>DataDecrypted\<close> was logged), \<^verbatim>\<open>requestDataDecryption\<close> has no not-found
  error: it hands the wire form of the zero ciphertext to the library and, when the
  library answers with a request id, records that request id for the id and logs
  \<^verbatim>\<open>DecryptionRequested\<close>; it reverts only when the library does.
\<close>

theorem unsubmitted_request_dispatched:
  assumes "i \<notin> set (submitted_ids (events (run ts deployed)))"
    and "DataDecrypted i \<notin> set (events (run ts deployed))"
  shows "requestDataDecryption L i (run ts deployed) =
    (case requestDecryption L [toBytes32 L 0] of
       None \<Rightarrow> Inl RequestDecryption_reverted
     | Some reqId \<Rightarrow>
         Inr ((run ts deployed)
               \<lparr>requestToDataId := (requestToDataId (run ts deployed))(reqId := i),
                events := events (run ts deployed) @ [DecryptionRequested i]\<rparr>))"
proof -
  have "storage_inv (run ts deployed)"
    by (rule storage_inv_run [OF storage_inv_deployed])
  with assms have "encryptedData (run ts deployed) i = \<lparr>id' = 0, encryptedValue = 0, timestamp = 0\<rparr>"
    and "decryptedData (run ts deployed) i = \<lparr>value' = 0, isRevealed = False\<rparr>"
    by (simp_all add: storage_inv_def)
  then show ?thesis
    by (simp add: requestDataDecryption_def)
qed

theorem unsubmitted_request_dispatched_witness:
  "2 \<notin> set (submitted_ids (events (run [SubmitEncryptedData 1000 42] deployed))) \<and>
   DataDecrypted 2 \<notin> set (events (run [SubmitEncryptedData 1000 42] deployed)) \<and>
   requestDataDecryption (lib 6) 2 (run [SubmitEncryptedData 1000 42] deployed) =
     Inr ((run [SubmitEncryptedData 1000 42] deployed)
           \<lparr>requestToDataId :=
              (requestToDataId (run [SubmitEncryptedData 1000 42] deployed))(6 := 2),
            events := events (run [SubmitEncryptedData 1000 42] deployed) @
              [DecryptionRequested 2]\<rparr>)"
proof -
  have ev: "events (run [SubmitEncryptedData 1000 42] deployed) = [DataSubmitted 1 1000]"
    by (simp add: call_defs deployed_def)
  have a: "2 \<notin> set (submitted_ids (events (run [SubmitEncryptedData 1000 42] deployed)))"
    unfolding ev by simp
  have b: "DataDecrypted 2 \<notin> set (events (run [SubmitEncryptedData 1000 42] deployed))"
    unfolding ev by simp
  show ?thesis
    using unsubmitted_request_dispatched [OF a b, of "lib 6"] a b
    by (simp add: lib_def)
qed

text \<open>
  C9 as stated fails: in \<open>unsubmitted_revealed_state\<close> no id was ever assigned, yet
  \<^verbatim>\<open>requestDataDecryption(1)\<close> stops at the not-revealed check with "Already decrypted",
  records nothing and logs nothing, because a callback for the unassigned id 1 was
  accepted before.
\<close>

theorem unsubmitted_request_counterexample:
  "submitted_ids (events unsubmitted_revealed_state) = [] \<and>
   dataCount unsubmitted_revealed_state = 0 \<and>
   requestDataDecryption (lib 6) 1 unsubmitted_revealed_state =
     Inl (Error ''Already decrypted'') \<and>
   exec (RequestDataDecryption (lib 6) 1) unsubmitted_revealed_state =
     unsubmitted_revealed_state"
  by (simp add: unsubmitted_revealed_state_eq exec_def requestDataDecryption_def)

section \<open>The decryption callback\<close>

text \<open>
  C7. When no target is recorded for the request id (\<^verbatim>\<open>requestToDataId[requestId]\<close>
  reads zero), \<^verbatim>\<open>decryptDataPoint\<close> reverts with "Invalid request", the contract's
  UnknownRequest, and the storage and the log after the transaction are those before it.
\<close>

theorem callback_unknown_request_fails:
  "requestToDataId s requestId = 0 \<Longrightarrow>
     decryptDataPoint L requestId cleartexts proof s = Inl (Error ''Invalid request'') \<and>
     exec (DecryptDataPoint L requestId cleartexts proof) s = s"
  by (simp add: exec_def decryptDataPoint_def)

theorem callback_unknown_request_fails_witness:
  "requestToDataId pending_state 6 = 0 \<and>
   decryptDataPoint (lib 0) 6 (payload 7) [] pending_state = Inl (Error ''Invalid request'') \<and>
   exec (DecryptDataPoint (lib 0) 6 (payload 7) []) pending_state = pending_state"
  using callback_unknown_request_fails [of pending_state 6 "lib 0" "payload 7" "[]"]
  by (simp add: pending_state_eq)

text \<open>
  C8, as the contract has it. When a target is recorded for the request id and the
  library's \<^verbatim>\<open>checkSignatures\<close> rejects the request id, the cleartexts and the proof,
  \<^verbatim>\<open>decryptDataPoint\<close> reverts inside the library (verification failed) and the storage
  and the log after the transaction are those before it. The record of the target is
  what it was: a target that was not revealed is still not revealed and its value is
  not written. The target need not be pending, though: a request id stays recorded
  after its callback was accepted, so the target may be revealed already, and then it
  stays revealed with the value it has.
\<close>

theorem callback_verification_failed:
  "requestToDataId s requestId \<noteq> 0 \<Longrightarrow>
   \<not> checkSignatures L requestId cleartexts proof \<Longrightarrow>
     decryptDataPoint L requestId cleartexts proof s = Inl CheckSignatures_reverted \<and>
     exec (DecryptDataPoint L requestId cleartexts proof) s = s \<and>
     decryptedData (exec (DecryptDataPoint L requestId cleartexts proof) s)
         (requestToDataId s requestId) =
       decryptedData s (requestToDataId s requestId) \<and>
     (\<not> isRevealed (decryptedData s (requestToDataId s requestId)) \<longrightarrow>
        \<not> isRevealed (decryptedData (exec (DecryptDataPoint L requestId cleartexts proof) s)
             (requestToDataId s requestId)))"
  by (simp add: exec_def decryptDataPoint_def)

theorem callback_verification_failed_witness:
  "requestToDataId pending_state 5 \<noteq> 0 \<and>
   \<not> checkSignatures lib_rejecting 5 (payload 7) [] \<and>
   \<not> isRevealed (decryptedData pending_state (requestToDataId pending_state 5)) \<and>
   decryptDataPoint lib_rejecting 5 (payload 7) [] pending_state = Inl CheckSignatures_reverted \<and>
   exec (DecryptDataPoint lib_rejecting 5 (payload 7) []) pending_state = pending_state \<and>
   \<not> isRevealed
       (decryptedData (exec (DecryptDataPoint lib_rejecting 5 (payload 7) []) pending_state)
         (requestToDataId pending_state 5)) \<and>
   getDecryptedData (exec (DecryptDataPoint lib_rejecting 5 (payload 7) []) pending_state) 1 =
     (0, False)"
proof -
  have a: "requestToDataId pending_state 5 \<noteq> 0"
    by (simp add: pending_state_eq)
  have b: "\<not> checkSignatures lib_rejecting 5 (payload 7) []"
    by (simp add: lib_rejecting_def)
  have c: "\<not> isRevealed (decryptedData pending_state (requestToDataId pending_state 5))"
    by (simp add: pending_state_eq)
  have d: "getDecryptedData pending_state 1 = (0, False)"
    by (simp add: pending_state_eq getDecryptedData_def)
  show ?thesis
    using callback_verification_failed [OF a b] a b c d by simp
qed

text \<open>
  C8 as stated fails: in \<open>revealed_state\<close> request 5 is still recorded for target 1,
  whose callback was accepted. A further delivery under request 5 that the library
  rejects reverts with the verification failure, and target 1 is not pending with its
  value unset: it is revealed with the value 7.
\<close>

theorem callback_verification_failed_counterexample:
  "requestToDataId revealed_state 5 \<noteq> 0 \<and>
   \<not> checkSignatures lib_rejecting 5 (payload 7) [] \<and>
   decryptDataPoint lib_rejecting 5 (payload 7) [] revealed_state =
     Inl CheckSignatures_reverted \<and>
   getDecryptedData (exec (DecryptDataPoint lib_rejecting 5 (payload 7) []) revealed_state) 1 =
     (7, True)"
  by (simp add: revealed_state_eq call_defs lib_rejecting_def)

text \<open>
  C1, as the contract has it. \<^verbatim>\<open>decryptDataPoint\<close> does not remove the request id: after
  a callback that was accepted, \<^verbatim>\<open>requestToDataId\<close> is what it was, and a further
  delivery under the same request id whose cleartexts and proof pass \<^verbatim>\<open>checkSignatures\<close>
  and decode to \<open>v'\<close> is accepted again: it writes \<open>v'\<close> to the target, sets
  \<^verbatim>\<open>isRevealed\<close> and logs \<^verbatim>\<open>DataDecrypted\<close> once more.
\<close>

theorem callback_accepted_again:
  "decryptDataPoint L requestId cleartexts proof s = Inr s' \<Longrightarrow>
   checkSignatures L' requestId cleartexts' proof' \<Longrightarrow>
   abi_decode_uint32 cleartexts' = Some v' \<Longrightarrow>
     requestToDataId s' = requestToDataId s \<and>
     requestToDataId s' requestId \<noteq> 0 \<and>
     decryptDataPoint L' requestId cleartexts' proof' s' =
       Inr (s'\<lparr>decryptedData := (decryptedData s')
                 (requestToDataId s requestId := \<lparr>value' = v', isRevealed = True\<rparr>),
               events := events s' @ [DataDecrypted (requestToDataId s requestId)]\<rparr>)"
  by (auto simp: decryptDataPoint_def Let_def split: if_splits option.splits)

theorem callback_accepted_again_witness:
  "decryptDataPoint (lib 0) 5 (payload 7) [] pending_state = Inr revealed_state \<and>
   checkSignatures (lib 0) 5 (payload 9) [] \<and>
   abi_decode_uint32 (payload 9) = Some 9 \<and>
   requestToDataId revealed_state = requestToDataId pending_state \<and>
   requestToDataId revealed_state 5 \<noteq> 0 \<and>
   decryptDataPoint (lib 0) 5 (payload 9) [] revealed_state =
     Inr (revealed_state\<lparr>decryptedData := (decryptedData revealed_state)
             (requestToDataId pending_state 5 := \<lparr>value' = 9, isRevealed = True\<rparr>),
           events := events revealed_state @ [DataDecrypted (requestToDataId pending_state 5)]\<rparr>)"
proof -
  have a: "decryptDataPoint (lib 0) 5 (payload 7) [] pending_state = Inr revealed_state"
    by (simp add: revealed_state_eq pending_state_eq decryptDataPoint_def lib_def decode_payload_7)
  have b: "checkSignatures (lib 0) 5 (payload 9) []"
    by (simp add: lib_def)
  show ?thesis
    using callback_accepted_again [OF a b decode_payload_9] a b decode_payload_9
    by (simp add: pending_state_eq)
qed

text \<open>
  C1 as stated fails: in \<open>revealed_state\<close> the callback for request 5 has been consumed,
  request 5 is still recorded for target 1, and delivering the same callback a second
  time is not rejected with "Invalid request": it returns and logs \<^verbatim>\<open>DataDecrypted(1)\<close>
  again.
\<close>

theorem callback_replay_counterexample:
  "requestToDataId revealed_state 5 = 1 \<and>
   decryptDataPoint (lib 0) 5 (payload 7) [] revealed_state =
     Inr (revealed_state\<lparr>events := events revealed_state @ [DataDecrypted 1]\<rparr>) \<and>
   decryptDataPoint (lib 0) 5 (payload 7) [] revealed_state \<noteq> Inl (Error ''Invalid request'')"
  by (simp add: revealed_state_eq decryptDataPoint_def lib_def decode_payload_7)

text \<open>
  C3, as the contract has it. A transaction changes \<^verbatim>\<open>decryptedData[i]\<close> only when it is
  an accepted callback whose request id is recorded for \<open>i\<close>, which writes the decoded
  value and sets \<^verbatim>\<open>isRevealed\<close>, or the \<^verbatim>\<open>submitEncryptedData\<close> that assigns \<open>i\<close>, which
  writes value 0 and clears \<^verbatim>\<open>isRevealed\<close>. Nothing limits such writes to one: a value
  that is set can be written again.
\<close>

theorem value_written_only_by_callback_or_submit:
  "call t s = Inr s' \<Longrightarrow> decryptedData s' i \<noteq> decryptedData s i \<Longrightarrow>
     (\<exists>L requestId cleartexts proof v.
         t = DecryptDataPoint L requestId cleartexts proof \<and>
         requestToDataId s requestId = i \<and> abi_decode_uint32 cleartexts = Some v \<and>
         decryptedData s' i = \<lparr>value' = v, isRevealed = True\<rparr>) \<or>
     (\<exists>now v.
         t = SubmitEncryptedData now v \<and> i = dataCount s + 1 \<and>
         decryptedData s' i = \<lparr>value' = 0, isRevealed = False\<rparr>)"
  by (cases t)
     (auto simp: submitEncryptedData_def requestDataDecryption_def decryptDataPoint_def Let_def
           split: if_splits option.splits)

theorem value_written_only_by_callback_or_submit_witness:
  "call (DecryptDataPoint (lib 0) 5 (payload 9) []) revealed_state =
     Inr (exec (DecryptDataPoint (lib 0) 5 (payload 9) []) revealed_state) \<and>
   decryptedData (exec (DecryptDataPoint (lib 0) 5 (payload 9) []) revealed_state) 1
     \<noteq> decryptedData revealed_state 1 \<and>
   requestToDataId revealed_state 5 = 1 \<and>
   decryptedData (exec (DecryptDataPoint (lib 0) 5 (payload 9) []) revealed_state) 1 =
     \<lparr>value' = 9, isRevealed = True\<rparr>"
proof -
  let ?t = "DecryptDataPoint (lib 0) 5 (payload 9) []"
  have a: "call ?t revealed_state = Inr (exec ?t revealed_state)"
    by (simp add: revealed_state_eq call_defs lib_def decode_payload_9)
  have b: "decryptedData (exec ?t revealed_state) 1 \<noteq> decryptedData revealed_state 1"
    by (simp add: revealed_state_eq call_defs lib_def decode_payload_9)
  show ?thesis
    using value_written_only_by_callback_or_submit [OF a b] a b decode_payload_9
    by (auto simp: revealed_state_eq)
qed

text \<open>
  C3 as stated fails: in \<open>revealed_state\<close> the value of target 1 is set to 7, and a
  further callback under request 5 with the cleartext 9 writes it a second time: the
  value is 9 afterwards.
\<close>

theorem value_overwritten_counterexample:
  "getDecryptedData revealed_state 1 = (7, True) \<and>
   getDecryptedData (exec (DecryptDataPoint (lib 0) 5 (payload 9) []) revealed_state) 1 =
     (9, True)"
  by (simp add: revealed_state_eq call_defs lib_def decode_payload_9)

section \<open>Reading\<close>

text \<open>
  C10, as the contract has it. After every sequence of transactions from deployment,
  \<^verbatim>\<open>getDecryptedData(i)\<close> returns value 0 and \<^verbatim>\<open>isRevealed\<close> false for every id \<open>i\<close> for
  which no callback has been accepted (no \<^verbatim>\<open>DataDecrypted(i)\<close> was logged), whether
  \<^verbatim>\<open>submitEncryptedData\<close> has assigned \<open>i\<close> or not: the read does not tell an id that
  was never submitted from one that was submitted and is not revealed.
\<close>

theorem undecrypted_reads_zero:
  assumes "DataDecrypted i \<notin> set (events (run ts deployed))"
  shows "getDecryptedData (run ts deployed) i = (0, False)"
proof -
  have "storage_inv (run ts deployed)"
    by (rule storage_inv_run [OF storage_inv_deployed])
  with assms have "decryptedData (run ts deployed) i = \<lparr>value' = 0, isRevealed = False\<rparr>"
    by (simp add: storage_inv_def)
  then show ?thesis
    by (simp add: getDecryptedData_def)
qed

theorem undecrypted_reads_zero_witness:
  "DataDecrypted 2 \<notin>
     set (events (run [SubmitEncryptedData 1000 42, RequestDataDecryption (lib 5) 1] deployed)) \<and>
   getDecryptedData
     (run [SubmitEncryptedData 1000 42, RequestDataDecryption (lib 5) 1] deployed) 2 = (0, False) \<and>
   2 \<notin> set (submitted_ids
     (events (run [SubmitEncryptedData 1000 42, RequestDataDecryption (lib 5) 1] deployed)))"
proof -
  have ev: "events (run [SubmitEncryptedData 1000 42, RequestDataDecryption (lib 5) 1] deployed)
      = [DataSubmitted 1 1000, DecryptionRequested 1]"
    by (simp add: call_defs deployed_def lib_def)
  have a: "DataDecrypted 2 \<notin>
      set (events (run [SubmitEncryptedData 1000 42, RequestDataDecryption (lib 5) 1] deployed))"
    unfolding ev by simp
  have b: "2 \<notin> set (submitted_ids
      (events (run [SubmitEncryptedData 1000 42, RequestDataDecryption (lib 5) 1] deployed)))"
    unfolding ev by simp
  show ?thesis
    using undecrypted_reads_zero [OF a] a b by simp
qed

text \<open>
  C10 as stated fails: in \<open>unsubmitted_revealed_state\<close> no id was ever assigned, and
  \<^verbatim>\<open>getDecryptedData(1)\<close> returns value 7 with \<^verbatim>\<open>isRevealed\<close> true.
\<close>

theorem unsubmitted_read_counterexample:
  "submitted_ids (events unsubmitted_revealed_state) = [] \<and>
   dataCount unsubmitted_revealed_state = 0 \<and>
   getDecryptedData unsubmitted_revealed_state 1 = (7, True)"
  by (simp add: unsubmitted_revealed_state_eq getDecryptedData_def)

end
